theory Spec2Isabelle
  imports Main
begin

section \<open>Data model of the authentication service\<close>

text \<open>
  The OAuth2 token manager of the calendar server is the class \<open>AuthService\<close> of
  \<open>services/auth.service.ts\<close>. Its four private fields, the two files it reads and
  writes, and the calls it makes on the OAuth2 client of the identity provider are modelled
  by explicit state passing: every method takes the state and returns its result together
  with the state it leaves behind. A rejected promise or a thrown exception is the left
  injection of a sum.

  Timestamps are epoch milliseconds, modelled as \<open>int\<close>. A JavaScript string is falsy
  exactly when it is empty, a number exactly when it is zero; a field that is \<open>undefined\<close>
  or \<open>null\<close> is \<open>None\<close>.
\<close>

datatype ErrorCode =
    AUTH_NOT_CONFIGURED | AUTH_TOKEN_EXPIRED | AUTH_TOKEN_INVALID | AUTH_REFRESH_FAILED
  | INVALID_INPUT | INVALID_DATE | INVALID_DURATION | MISSING_REQUIRED_FIELD
  | EVENT_NOT_FOUND | CALENDAR_NOT_FOUND | RATE_LIMIT_EXCEEDED | API_ERROR
  | UNKNOWN_ERROR | FILE_NOT_FOUND | PARSE_ERROR

text \<open>
  What a method can throw: a \<open>CalendarError\<close> with its message and its code, a plain
  \<open>Error\<close> with a message only, the rejection of a call on the provider's client, which
  the service passes on untouched, and the rejection of a file-system call (named by the
  call that failed).
\<close>

datatype error =
    CalendarError string ErrorCode
  | PlainError string
  | ProviderError string
  | FsError string

fun error_code :: "error \<Rightarrow> ErrorCode option" where
  "error_code (CalendarError msg c) = Some c"
| "error_code (PlainError msg) = None"
| "error_code (ProviderError msg) = None"
| "error_code (FsError msg) = None"

record ClientConfig =
  client_id :: string
  project_id :: string
  auth_uri :: string
  token_uri :: string
  auth_provider_x509_cert_url :: string
  client_secret :: string
  redirect_uris :: "string list"

record OAuthCredentials =
  installed :: "ClientConfig option"
  web :: "ClientConfig option"

record OAuthTokens =
  access_token :: string
  refresh_token :: "string option"
  scope :: string
  token_type :: string
  expiry_date :: int

text \<open>
  The token set a call on the provider's client answers with (\<open>Credentials\<close> of the
  provider's library): every field may be missing.
\<close>

record Credentials =
  cr_access_token :: "string option"
  cr_refresh_token :: "string option"
  cr_scope :: "string option"
  cr_token_type :: "string option"
  cr_expiry_date :: "int option"

text \<open>
  The OAuth2 client object: the three constructor arguments, the token set last handed to
  \<open>setCredentials\<close> (none after \<open>revokeCredentials\<close>) and the number of listeners
  registered for its \<open>tokens\<close> event.
\<close>

record OAuth2Client =
  clientId :: string
  clientSecret :: string
  redirectUri :: string
  client_credentials :: "OAuthTokens option"
  tokens_listeners :: nat

text \<open>
  Reading a JSON file: \<open>readFile\<close> rejects with code \<open>ENOENT\<close>, or rejects with
  another code, or the content is not JSON (\<open>JSON.parse\<close> throws a \<open>SyntaxError\<close>,
  which has no \<open>code\<close>), or parsing succeeds. The parsed value may be \<open>null\<close>.
\<close>

datatype 'a json_file = Missing | Unreadable | Malformed | Parsed 'a

text \<open>Calls that leave the process: requests to the provider and writes to the disk.\<close>

datatype effect =
    ProviderRefresh
  | ProviderGetToken string
  | ProviderRevoke
  | FsMkdir
  | FsWrite OAuthTokens
  | FsUnlink

record AuthUrlOpts =
  access_type :: string
  opt_scope :: "string list"
  prompt :: string

text \<open>
  The state: the fields of \<open>AuthService\<close>, then the directory \<open>data/\<close> and the file
  \<open>data/tokens.json\<close> on the disk, then the log of the effects so far.
\<close>

record state =
  oauth2Client :: "OAuth2Client option"
  credentials :: "OAuthCredentials option"
  tokens :: "OAuthTokens option"
  initialized :: bool
  data_dir :: bool
  tokens_file :: "OAuthTokens option json_file"
  trace :: "effect list"

text \<open>
  What the outside world answers during one call: the clock, the file
  \<open>config/credentials.json\<close> (the service never writes it), whether \<open>mkdir\<close>,
  \<open>writeFile\<close> and \<open>unlink\<close> fail, the answer of the provider to the \<open>k\<close>-th refresh
  request and to a code exchange (a rejection with its message, or a token set), and the
  URL the client computes (locally) for given options.
\<close>

record env =
  now :: int
  credentials_file :: "OAuthCredentials option json_file"
  mkdir_fails :: bool
  write_fails :: bool
  unlink_fails :: bool
  refreshAccessToken :: "nat \<Rightarrow> string + Credentials"
  getToken :: "string \<Rightarrow> string + Credentials"
  client_generateAuthUrl :: "OAuth2Client \<Rightarrow> AuthUrlOpts \<Rightarrow> string"

definition SCOPES :: "string list" where
  "SCOPES = [''https://www.googleapis.com/auth/calendar'']"

definition new_AuthService :: state where
  "new_AuthService =
     \<lparr>oauth2Client = None, credentials = None, tokens = None, initialized = False,
      data_dir = False, tokens_file = Missing, trace = []\<rparr>"

definition count_refresh :: "effect list \<Rightarrow> nat" where
  "count_refresh es = length (filter (\<lambda>e. e = ProviderRefresh) es)"

definition logged :: "effect \<Rightarrow> state \<Rightarrow> state" where
  "logged e s = s\<lparr>trace := trace s @ [e]\<rparr>"

section \<open>The methods of \<open>AuthService\<close>\<close>

definition loadCredentials :: "env \<Rightarrow> state \<Rightarrow> (error + unit) \<times> state" where
  "loadCredentials e s =
     (case credentials_file e of
        Parsed c \<Rightarrow> (Inr (), s\<lparr>credentials := c\<rparr>)
      | Missing \<Rightarrow>
          (Inl (CalendarError
                  ''OAuth credentials not found. Place credentials.json in config/''
                  AUTH_NOT_CONFIGURED), s)
      | _ \<Rightarrow> (Inl (CalendarError ''Failed to load credentials'' PARSE_ERROR), s))"

definition loadTokens :: "env \<Rightarrow> state \<Rightarrow> (error + unit) \<times> state" where
  "loadTokens e s =
     (case tokens_file s of
        Parsed t \<Rightarrow> (Inr (), s\<lparr>tokens := t\<rparr>)
      | Missing \<Rightarrow> (Inr (), s\<lparr>tokens := None\<rparr>)
      | _ \<Rightarrow> (Inl (CalendarError ''Failed to load tokens'' PARSE_ERROR), s))"

text \<open>
  \<open>saveTokens\<close>: make the directory when \<open>access\<close> rejects, write the file, and only
  then assign the field. A rejection of \<open>mkdir\<close> or \<open>writeFile\<close> leaves the method
  before the assignment.
\<close>

definition saveTokens :: "env \<Rightarrow> state \<Rightarrow> OAuthTokens \<Rightarrow> (error + unit) \<times> state" where
  "saveTokens e s t =
     (if \<not> data_dir s \<and> mkdir_fails e then (Inl (FsError ''mkdir''), s)
      else
        let s1 = (if data_dir s then s else logged FsMkdir (s\<lparr>data_dir := True\<rparr>)) in
        if write_fails e then (Inl (FsError ''writeFile''), s1)
        else
          let s2 = logged (FsWrite t) (s1\<lparr>tokens_file := Parsed (Some t)\<rparr>) in
          (Inr (), s2\<lparr>tokens := Some t\<rparr>))"

text \<open>
  \<open>createOAuth2Client\<close> builds the client from the \<open>installed\<close> part of the
  credentials, or else from the \<open>web\<close> part, hands it the token record when there is
  one, and registers \<open>handleTokenRefresh\<close> as the listener of its \<open>tokens\<close> event.
  Whether and when the provider's library emits that event is outside this repository;
  \<open>handleTokenRefresh\<close> is run where \<open>getClient\<close> itself calls it.
\<close>

definition createOAuth2Client :: "state \<Rightarrow> (error + unit) \<times> state" where
  "createOAuth2Client s =
     (case credentials s of
        None \<Rightarrow> (Inl (CalendarError ''Credentials not loaded'' AUTH_NOT_CONFIGURED), s)
      | Some c \<Rightarrow>
          (case (case installed c of Some cfg \<Rightarrow> Some cfg | None \<Rightarrow> web c) of
             None \<Rightarrow>
               (Inl (CalendarError ''Invalid credentials format'' AUTH_NOT_CONFIGURED), s)
           | Some clientConfig \<Rightarrow>
               (Inr (),
                s\<lparr>oauth2Client := Some
                     \<lparr>clientId = client_id clientConfig,
                      clientSecret = client_secret clientConfig,
                      redirectUri = ''urn:ietf:wg:oauth:2.0:oob'',
                      client_credentials = tokens s,
                      tokens_listeners = 1\<rparr>\<rparr>)))"

definition initialize :: "env \<Rightarrow> state \<Rightarrow> (error + unit) \<times> state" where
  "initialize e s =
     (if initialized s then (Inr (), s)
      else
        case loadCredentials e s of
          (Inl err, s1) \<Rightarrow> (Inl err, s1)
        | (Inr _, s1) \<Rightarrow>
            (case loadTokens e s1 of
               (Inl err, s2) \<Rightarrow> (Inl err, s2)
             | (Inr _, s2) \<Rightarrow>
                 (case createOAuth2Client s2 of
                    (Inl err, s3) \<Rightarrow> (Inl err, s3)
                  | (Inr _, s3) \<Rightarrow> (Inr (), s3\<lparr>initialized := True\<rparr>))))"

text \<open>\<open>a || b\<close> on an optional string and on an optional number.\<close>

definition or_string :: "string option \<Rightarrow> string \<Rightarrow> string" where
  "or_string a b = (case a of Some x \<Rightarrow> if x \<noteq> [] then x else b | None \<Rightarrow> b)"

definition or_number :: "int option \<Rightarrow> int \<Rightarrow> int" where
  "or_number a b = (case a of Some x \<Rightarrow> if x \<noteq> 0 then x else b | None \<Rightarrow> b)"

definition handleTokenRefresh :: "env \<Rightarrow> state \<Rightarrow> Credentials \<Rightarrow> (error + unit) \<times> state" where
  "handleTokenRefresh e s cr =
     (case tokens s of
        None \<Rightarrow> (Inr (), s)
      | Some t \<Rightarrow>
          let updated = t\<lparr>access_token := or_string (cr_access_token cr) (access_token t),
                           expiry_date := or_number (cr_expiry_date cr) (expiry_date t)\<rparr>;
              updated' = (case cr_refresh_token cr of
                            Some r \<Rightarrow> if r \<noteq> [] then updated\<lparr>refresh_token := Some r\<rparr>
                                      else updated
                          | None \<Rightarrow> updated)
          in saveTokens e s updated')"

definition isAuthenticated :: "state \<Rightarrow> bool" where
  "isAuthenticated s \<longleftrightarrow> tokens s \<noteq> None \<and> oauth2Client s \<noteq> None"

definition needsRefresh :: "env \<Rightarrow> state \<Rightarrow> bool" where
  "needsRefresh e s =
     (case tokens s of
        None \<Rightarrow> True
      | Some t \<Rightarrow>
          if expiry_date t = 0 then True
          else (let buffer = 5 * 60 * 1000 in now e \<ge> expiry_date t - buffer))"

definition generateAuthUrl :: "env \<Rightarrow> state \<Rightarrow> (error + string) \<times> state" where
  "generateAuthUrl e s =
     (let opts = \<lparr>access_type = ''offline'', opt_scope = SCOPES, prompt = ''consent''\<rparr> in
      case oauth2Client s of
        Some c \<Rightarrow> (Inr (client_generateAuthUrl e c opts), s)
      | None \<Rightarrow>
          (case credentials s of
             None \<Rightarrow> (Inl (CalendarError ''Credentials not loaded'' AUTH_NOT_CONFIGURED), s)
           | Some _ \<Rightarrow>
               (case createOAuth2Client s of
                  (Inl err, s1) \<Rightarrow> (Inl err, s1)
                | (Inr _, s1) \<Rightarrow>
                    (case oauth2Client s1 of
                       Some c \<Rightarrow> (Inr (client_generateAuthUrl e c opts), s1)
                     | None \<Rightarrow> (Inl (PlainError ''TypeError''), s1)))))"

text \<open>
  \<open>getClient\<close> returns the field \<open>oauth2Client\<close> as it is when the method ends. The
  field is checked at the start and nothing in between clears it, so the branch for a
  missing client at the end is never taken; the same holds in \<open>generateAuthUrl\<close> after
  \<open>createOAuth2Client\<close> has succeeded.
\<close>

definition getClient :: "env \<Rightarrow> state \<Rightarrow> (error + OAuth2Client) \<times> state" where
  "getClient e s =
     (case (if \<not> initialized s then initialize e s else (Inr (), s)) of
        (Inl err, s0) \<Rightarrow> (Inl err, s0)
      | (Inr _, s0) \<Rightarrow>
          (case oauth2Client s0 of
             None \<Rightarrow>
               (Inl (CalendarError ''OAuth2 client not initialized'' AUTH_NOT_CONFIGURED), s0)
           | Some c \<Rightarrow>
               if \<not> isAuthenticated s0 then
                 (case generateAuthUrl e s0 of
                    (Inl err, s1) \<Rightarrow> (Inl err, s1)
                  | (Inr authUrl, s1) \<Rightarrow>
                      (Inl (CalendarError (''Not authenticated. Visit: '' @ authUrl)
                              AUTH_TOKEN_INVALID), s1))
               else if needsRefresh e s0 then
                 (let k = count_refresh (trace s0); s1 = logged ProviderRefresh s0 in
                  case refreshAccessToken e k of
                    Inl msg \<Rightarrow> (Inl (ProviderError msg), s1)
                  | Inr cr \<Rightarrow>
                      (case handleTokenRefresh e s1 cr of
                         (Inl err, s2) \<Rightarrow> (Inl err, s2)
                       | (Inr _, s2) \<Rightarrow>
                           (case oauth2Client s2 of
                              Some c2 \<Rightarrow> (Inr c2, s2)
                            | None \<Rightarrow> (Inl (PlainError ''TypeError''), s2))))
               else (Inr c, s0)))"

text \<open>\<open>Array.prototype.join\<close>.\<close>

fun join :: "string \<Rightarrow> string list \<Rightarrow> string" where
  "join sep [] = []"
| "join sep [x] = x"
| "join sep (x # y # ys) = x @ sep @ join sep (y # ys)"

definition exchangeCode :: "env \<Rightarrow> state \<Rightarrow> string \<Rightarrow> (error + unit) \<times> state" where
  "exchangeCode e s code =
     (case oauth2Client s of
        None \<Rightarrow>
          (Inl (CalendarError ''OAuth2 client not initialized'' AUTH_NOT_CONFIGURED), s)
      | Some c \<Rightarrow>
          (let s1 = logged (ProviderGetToken code) s in
           case getToken e code of
             Inl msg \<Rightarrow> (Inl (ProviderError msg), s1)
           | Inr tk \<Rightarrow>
               if or_string (cr_access_token tk) [] = [] then
                 (Inl (PlainError ''No access token received''), s1)
               else
                 (let oauthTokens =
                        \<lparr>access_token = or_string (cr_access_token tk) [],
                         refresh_token = cr_refresh_token tk,
                         scope = or_string (cr_scope tk) (join '' '' SCOPES),
                         token_type = or_string (cr_token_type tk) ''Bearer'',
                         expiry_date = or_number (cr_expiry_date tk) (now e + 3600000)\<rparr>
                  in case saveTokens e s1 oauthTokens of
                       (Inl err, s2) \<Rightarrow> (Inl err, s2)
                     | (Inr _, s2) \<Rightarrow>
                         (Inr (),
                          s2\<lparr>oauth2Client :=
                               Some (c\<lparr>client_credentials := Some oauthTokens\<rparr>)\<rparr>))))"

text \<open>
  The snapshot of \<open>getStatus\<close>. \<open>expiresAt\<close> is the ISO string of an instant and is
  represented by that instant; \<open>toISOString\<close> throws a \<open>RangeError\<close> on an instant
  outside the range of \<open>Date\<close>.
\<close>

record status =
  st_isAuthenticated :: bool
  st_needsRefresh :: bool
  st_expiresAt :: "int option"
  st_authUrl :: "string option"

definition valid_time :: "int \<Rightarrow> bool" where
  "valid_time ms \<longleftrightarrow> - 8640000000000000 \<le> ms \<and> ms \<le> 8640000000000000"

definition getStatus :: "env \<Rightarrow> state \<Rightarrow> (error + status) \<times> state" where
  "getStatus e s =
     (let st = \<lparr>st_isAuthenticated = isAuthenticated s, st_needsRefresh = needsRefresh e s,
                st_expiresAt = None, st_authUrl = None\<rparr> in
      case (case tokens s of
              Some t \<Rightarrow>
                if expiry_date t \<noteq> 0 then
                  (if valid_time (expiry_date t)
                   then Inr (st\<lparr>st_expiresAt := Some (expiry_date t)\<rparr>)
                   else Inl (PlainError ''RangeError: Invalid time value''))
                else Inr st
            | None \<Rightarrow> Inr st) of
        Inl err \<Rightarrow> (Inl err, s)
      | Inr st1 \<Rightarrow>
          if \<not> st_isAuthenticated st1 then
            (case generateAuthUrl e s of
               (Inl _, s1) \<Rightarrow> (Inr st1, s1)
             | (Inr url, s1) \<Rightarrow> (Inr (st1\<lparr>st_authUrl := Some url\<rparr>), s1))
          else (Inr st1, s))"

text \<open>
  \<open>clearTokens\<close>: the field is cleared, the client (when there is one) is told to revoke,
  and the file is unlinked; a failing \<open>unlink\<close> (also of a file that is not there) is
  swallowed.
\<close>

definition clearTokens :: "env \<Rightarrow> state \<Rightarrow> state" where
  "clearTokens e s =
     (let s1 = s\<lparr>tokens := None\<rparr>;
          s2 = (case oauth2Client s1 of
                  Some c \<Rightarrow>
                    logged ProviderRevoke
                      (s1\<lparr>oauth2Client := Some (c\<lparr>client_credentials := None\<rparr>)\<rparr>)
                | None \<Rightarrow> s1)
      in if unlink_fails e \<or> tokens_file s2 = Missing then s2
         else logged FsUnlink (s2\<lparr>tokens_file := Missing\<rparr>))"

text \<open>Calling \<open>getStatus\<close> again and again, once for each given world.\<close>

fun getStatus_calls :: "env list \<Rightarrow> state \<Rightarrow> state" where
  "getStatus_calls [] s = s"
| "getStatus_calls (e # es) s = getStatus_calls es (snd (getStatus e s))"

section \<open>\<open>getClient\<close> cut at its suspension points\<close>

text \<open>
  \<open>getClient\<close> is an \<open>async\<close> method: it runs without interruption up to an
  \<open>await\<close> on a pending promise, and other callers run while it is suspended. It
  suspends on \<open>initialize()\<close> when the service is not initialised, and on
  \<open>refreshAccessToken()\<close> after it has issued the refresh request. \<open>getClient_begin\<close> is
  the part up to the first suspension, \<open>getClient_resume\<close> the part from one suspension
  to the next (the file-system awaits inside \<open>initialize\<close> and \<open>saveTokens\<close> are run
  through in one piece).
\<close>

datatype pending =
    Settled "error + OAuth2Client"
  | AwaitInitialize
  | AwaitRefresh nat

definition getClient_rest :: "env \<Rightarrow> state \<Rightarrow> pending \<times> state" where
  "getClient_rest e s0 =
     (case oauth2Client s0 of
        None \<Rightarrow>
          (Settled (Inl (CalendarError ''OAuth2 client not initialized''
                           AUTH_NOT_CONFIGURED)), s0)
      | Some c \<Rightarrow>
          if \<not> isAuthenticated s0 then
            (case generateAuthUrl e s0 of
               (Inl err, s1) \<Rightarrow> (Settled (Inl err), s1)
             | (Inr authUrl, s1) \<Rightarrow>
                 (Settled (Inl (CalendarError (''Not authenticated. Visit: '' @ authUrl)
                                  AUTH_TOKEN_INVALID)), s1))
          else if needsRefresh e s0 then
            (AwaitRefresh (count_refresh (trace s0)), logged ProviderRefresh s0)
          else (Settled (Inr c), s0))"

definition getClient_begin :: "env \<Rightarrow> state \<Rightarrow> pending \<times> state" where
  "getClient_begin e s =
     (if \<not> initialized s then (AwaitInitialize, s) else getClient_rest e s)"

definition getClient_resume :: "env \<Rightarrow> state \<Rightarrow> pending \<Rightarrow> pending \<times> state" where
  "getClient_resume e s p =
     (case p of
        Settled r \<Rightarrow> (Settled r, s)
      | AwaitInitialize \<Rightarrow>
          (case initialize e s of
             (Inl err, s0) \<Rightarrow> (Settled (Inl err), s0)
           | (Inr _, s0) \<Rightarrow> getClient_rest e s0)
      | AwaitRefresh k \<Rightarrow>
          (case refreshAccessToken e k of
             Inl msg \<Rightarrow> (Settled (Inl (ProviderError msg)), s)
           | Inr cr \<Rightarrow>
               (case handleTokenRefresh e s cr of
                  (Inl err, s2) \<Rightarrow> (Settled (Inl err), s2)
                | (Inr _, s2) \<Rightarrow>
                    (case oauth2Client s2 of
                       Some c2 \<Rightarrow> (Settled (Inr c2), s2)
                     | None \<Rightarrow> (Settled (Inl (PlainError ''TypeError'')), s2)))))"



section \<open>Durations and end times (the date parser)\<close>


























section \<open>Creating an event (the calendar service)\<close>






definition RangeError :: error where
  "RangeError = PlainError ''RangeError: Invalid time value''"




datatype reminder_method = email | popup

record EventReminder =
  rem_method :: reminder_method
  rem_minutes :: nat








section \<open>Concrete configurations\<close>

text \<open>
  A credential bundle, a token record that expires at the instant \<open>1000000\<close>, and a
  world whose clock stands four minutes before that instant, whose disk works, and whose
  provider answers every refresh with a new access token and a new expiry but no refresh
  token.
\<close>

definition cfg0 :: ClientConfig where
  "cfg0 = \<lparr>client_id = ''id'', project_id = ''proj'', auth_uri = ''auth'',
            token_uri = ''token'', auth_provider_x509_cert_url = ''certs'',
            client_secret = ''secret'', redirect_uris = []\<rparr>"

definition creds0 :: OAuthCredentials where
  "creds0 = \<lparr>installed = Some cfg0, web = None\<rparr>"

definition tok0 :: OAuthTokens where
  "tok0 = \<lparr>access_token = ''old'', refresh_token = Some ''r0'', scope = ''cal'',
            token_type = ''Bearer'', expiry_date = 1000000\<rparr>"

definition fresh0 :: Credentials where
  "fresh0 = \<lparr>cr_access_token = Some ''new'', cr_refresh_token = None, cr_scope = None,
              cr_token_type = None, cr_expiry_date = Some 5000000\<rparr>"

definition env0 :: env where
  "env0 = \<lparr>now = 760000, credentials_file = Parsed (Some creds0), mkdir_fails = False,
            write_fails = False, unlink_fails = False,
            refreshAccessToken = (\<lambda>k. Inr fresh0),
            getToken = (\<lambda>code. if code = ''validcode'' then Inr fresh0
                               else Inl ''invalid_grant''),
            client_generateAuthUrl =
              (\<lambda>c opts. ''https://accounts.google.com/o/oauth2/v2/auth?client_id=''
                          @ clientId c)\<rparr>"

definition client0 :: OAuth2Client where
  "client0 = \<lparr>clientId = ''id'', clientSecret = ''secret'',
               redirectUri = ''urn:ietf:wg:oauth:2.0:oob'',
               client_credentials = Some tok0, tokens_listeners = 1\<rparr>"

text \<open>The service after a successful \<open>initialize\<close> that found \<open>tok0\<close> on the disk.\<close>

definition ready0 :: state where
  "ready0 = \<lparr>oauth2Client = Some client0, credentials = Some creds0, tokens = Some tok0,
              initialized = True, data_dir = True, tokens_file = Parsed (Some tok0),
              trace = []\<rparr>"


text \<open>A disk that cannot be written.\<close>

definition env_readonly :: env where
  "env_readonly = env0\<lparr>write_fails := True\<rparr>"

text \<open>A provider whose answer to a code exchange holds no access token.\<close>

definition env_no_access :: env where
  "env_no_access = env0\<lparr>getToken := (\<lambda>code. Inr (fresh0\<lparr>cr_access_token := None\<rparr>))\<rparr>"

text \<open>A credentials file and a token file that are not JSON.\<close>

definition env_bad_credentials :: env where
  "env_bad_credentials = env0\<lparr>credentials_file := Malformed\<rparr>"

definition env_no_credentials :: env where
  "env_no_credentials = env0\<lparr>credentials_file := Missing\<rparr>"

definition bad_token_disk :: state where
  "bad_token_disk = new_AuthService\<lparr>data_dir := True, tokens_file := Malformed\<rparr>"

text \<open>
  The service after \<open>initialize\<close> has loaded the credentials and then failed on the
  token file: credentials present, no client yet.
\<close>

definition half0 :: state where
  "half0 = \<lparr>oauth2Client = None, credentials = Some creds0, tokens = None,
             initialized = False, data_dir = True, tokens_file = Malformed, trace = []\<rparr>"

text \<open>An initialised service without a token record, and a clock ten minutes before expiry.\<close>

definition unauth0 :: state where
  "unauth0 = \<lparr>oauth2Client = Some (client0\<lparr>client_credentials := None\<rparr>),
               credentials = Some creds0, tokens = None, initialized = True,
               data_dir = True, tokens_file = Missing, trace = []\<rparr>"

definition env_far :: env where
  "env_far = env0\<lparr>now := 400000\<rparr>"




section \<open>Properties of the authentication service\<close>

lemma count_refresh_logged:
  "count_refresh (trace (logged x s)) = count_refresh (trace s) + (if x = ProviderRefresh then 1 else 0)"
  by (simp add: count_refresh_def logged_def)

lemma saveTokens_cases:
  "saveTokens e s t =
     (if \<not> data_dir s \<and> mkdir_fails e then (Inl (FsError ''mkdir''), s)
      else if write_fails e then
        (Inl (FsError ''writeFile''),
         if data_dir s then s else s\<lparr>data_dir := True, trace := trace s @ [FsMkdir]\<rparr>)
      else
        (Inr (),
         s\<lparr>data_dir := True, tokens_file := Parsed (Some t),
           trace := trace s @ (if data_dir s then [] else [FsMkdir]) @ [FsWrite t],
           tokens := Some t\<rparr>))"
  by (simp add: saveTokens_def logged_def Let_def)

lemma saveTokens_count_refresh:
  "count_refresh (trace (snd (saveTokens e s t))) = count_refresh (trace s)"
  by (simp add: saveTokens_cases count_refresh_def)

lemma saveTokens_frame:
  "oauth2Client (snd (saveTokens e s t)) = oauth2Client s"
  "credentials (snd (saveTokens e s t)) = credentials s"
  "initialized (snd (saveTokens e s t)) = initialized s"
  by (simp_all add: saveTokens_cases)

lemma handleTokenRefresh_count_refresh:
  "count_refresh (trace (snd (handleTokenRefresh e s cr))) = count_refresh (trace s)"
  by (simp add: handleTokenRefresh_def saveTokens_count_refresh Let_def split: option.splits)

lemma handleTokenRefresh_frame:
  "oauth2Client (snd (handleTokenRefresh e s cr)) = oauth2Client s"
  "credentials (snd (handleTokenRefresh e s cr)) = credentials s"
  "initialized (snd (handleTokenRefresh e s cr)) = initialized s"
  by (simp_all add: handleTokenRefresh_def saveTokens_frame Let_def split: option.splits)

lemma handleTokenRefresh_result:
  assumes "handleTokenRefresh e s cr = (r, s')"
  shows "oauth2Client s' = oauth2Client s" and "credentials s' = credentials s"
    and "initialized s' = initialized s"
    and "count_refresh (trace s') = count_refresh (trace s)"
  using handleTokenRefresh_frame [of e s cr] handleTokenRefresh_count_refresh [of e s cr] assms
  by simp_all

lemma getClient_ready:
  assumes "initialized s" "oauth2Client s = Some c" "tokens s = Some t"
  shows "getClient e s =
     (if needsRefresh e s then
        (case refreshAccessToken e (count_refresh (trace s)) of
           Inl msg \<Rightarrow> (Inl (ProviderError msg), logged ProviderRefresh s)
         | Inr cr \<Rightarrow>
             (case handleTokenRefresh e (logged ProviderRefresh s) cr of
                (Inl err, s2) \<Rightarrow> (Inl err, s2)
              | (Inr _, s2) \<Rightarrow> (Inr c, s2)))
      else (Inr c, s))"
  using assms
  by (auto simp: getClient_def isAuthenticated_def Let_def logged_def
      split: sum.splits prod.splits option.splits
      dest!: handleTokenRefresh_result(1))

lemma initialize_trace: "trace (snd (initialize e s)) = trace s"
  by (auto simp: initialize_def loadCredentials_def loadTokens_def createOAuth2Client_def
      split: json_file.splits option.splits sum.splits prod.splits)

lemma initialize_initialized:
  "fst (initialize e s) = Inr () \<Longrightarrow> initialized (snd (initialize e s))"
  by (auto simp: initialize_def split: sum.splits prod.splits)

lemma initialize_gives_client:
  "\<not> initialized s \<Longrightarrow> fst (initialize e s) = Inr ()
     \<Longrightarrow> oauth2Client (snd (initialize e s)) \<noteq> None"
  by (auto simp: initialize_def loadCredentials_def loadTokens_def createOAuth2Client_def
      split: json_file.splits option.splits sum.splits prod.splits)

lemma getClient_via_initialize:
  assumes "(if \<not> initialized s then initialize e s else (Inr (), s)) = (Inr (), s0)"
  shows "initialized s0" and "trace s0 = trace s" and "getClient e s = getClient e s0"
proof -
  show i: "initialized s0"
    using assms initialize_initialized [of e s] by (cases "initialized s") auto
  show "trace s0 = trace s"
    using assms initialize_trace [of e s] by (cases "initialized s") auto
  show "getClient e s = getClient e s0"
    unfolding getClient_def [of e s] assms
    using i by (simp add: getClient_def)
qed


text \<open>
  C4. Let \<open>getClient\<close> be called on a service that is initialised, or whose
  \<open>initialize\<close> succeeds, and that then holds a client and a token record with an expiry
  timestamp. The call issues a refresh request exactly when the clock is within five
  minutes of the expiry or past it, and then exactly one: one request when the expiry is
  four minutes ahead, none when it is ten minutes ahead, where the call returns the client
  at once.
\<close>

theorem getClient_refresh_iff_window:
  assumes "(if \<not> initialized s then initialize e s else (Inr (), s)) = (Inr (), s0)"
    and "oauth2Client s0 = Some c" and "tokens s0 = Some t"
    and "expiry_date t \<noteq> 0"
  shows "count_refresh (trace (snd (getClient e s))) =
           count_refresh (trace s) + (if expiry_date t - 5 * 60 * 1000 \<le> now e then 1 else 0)
         \<and> (expiry_date t = now e + 4 * 60 * 1000 \<longrightarrow>
              count_refresh (trace (snd (getClient e s))) = count_refresh (trace s) + 1)
         \<and> (expiry_date t = now e + 10 * 60 * 1000 \<longrightarrow> getClient e s = (Inr c, s0))"
proof -
  note i = getClient_via_initialize [OF assms(1)]
  note r = getClient_ready [OF i(1) assms(2,3), of e]
  have nr: "needsRefresh e s0 \<longleftrightarrow> expiry_date t - 5 * 60 * 1000 \<le> now e"
    using assms by (simp add: needsRefresh_def)
  have cnt: "count_refresh (trace (snd (getClient e s))) =
           count_refresh (trace s) + (if needsRefresh e s0 then 1 else 0)"
    unfolding i(3) i(2) [symmetric]
    by (auto simp: r count_refresh_logged
        split: sum.splits prod.splits dest!: handleTokenRefresh_result(4))
  have far: "expiry_date t = now e + 10 * 60 * 1000 \<Longrightarrow> getClient e s = (Inr c, s0)"
    using nr by (simp add: i(3) r)
  show ?thesis using nr cnt far by auto
qed

theorem getClient_refresh_iff_window_witness:
  "(if \<not> initialized ready0 then initialize env0 ready0 else (Inr (), ready0)) = (Inr (), ready0)
   \<and> oauth2Client ready0 = Some client0 \<and> tokens ready0 = Some tok0
   \<and> expiry_date tok0 \<noteq> 0
   \<and> expiry_date tok0 = now env0 + 4 * 60 * 1000
   \<and> count_refresh (trace (snd (getClient env0 ready0))) = 1
   \<and> expiry_date tok0 = now env_far + 10 * 60 * 1000
   \<and> getClient env_far ready0 = (Inr client0, ready0)"
proof -
  have i: "(if \<not> initialized ready0 then initialize env0 ready0 else (Inr (), ready0))
             = (Inr (), ready0)"
    "(if \<not> initialized ready0 then initialize env_far ready0 else (Inr (), ready0))
             = (Inr (), ready0)"
    by (simp_all add: ready0_def)
  have st: "oauth2Client ready0 = Some client0" "tokens ready0 = Some tok0"
    by (simp_all add: ready0_def)
  have x: "expiry_date tok0 \<noteq> 0" "expiry_date tok0 = now env0 + 4 * 60 * 1000"
    "expiry_date tok0 = now env_far + 10 * 60 * 1000"
    by (simp_all add: tok0_def env0_def env_far_def)
  have z: "count_refresh (trace ready0) = 0"
    by (simp add: ready0_def count_refresh_def)
  have a: "count_refresh (trace (snd (getClient env0 ready0))) = count_refresh (trace ready0) + 1"
    using getClient_refresh_iff_window [OF i(1) st x(1)] x(2) by blast
  have b: "getClient env_far ready0 = (Inr client0, ready0)"
    using getClient_refresh_iff_window [OF i(2) st x(1)] x(3) by blast
  show ?thesis using i(1) st x a b z by simp
qed

text \<open>
  C5. When the answer to a refresh holds no refresh token, the token record the service
  holds after \<open>handleTokenRefresh\<close> still has the refresh token it had before. When the
  record could be written, its access token and its expiry are those of the answer (the old
  ones where the answer has none), scope and token type are as before, and the file holds
  the same record; when the write failed, record and file are as before.
\<close>

theorem handleTokenRefresh_retains_refresh_token:
  assumes "tokens s = Some t" and "cr_refresh_token cr = None"
  shows "\<exists>t'. tokens (snd (handleTokenRefresh e s cr)) = Some t'
           \<and> refresh_token t' = refresh_token t
           \<and> (fst (handleTokenRefresh e s cr) = Inr () \<longrightarrow>
                access_token t' = or_string (cr_access_token cr) (access_token t)
                \<and> expiry_date t' = or_number (cr_expiry_date cr) (expiry_date t)
                \<and> scope t' = scope t \<and> token_type t' = token_type t
                \<and> tokens_file (snd (handleTokenRefresh e s cr)) = Parsed (Some t'))
           \<and> (fst (handleTokenRefresh e s cr) \<noteq> Inr () \<longrightarrow>
                t' = t \<and> tokens_file (snd (handleTokenRefresh e s cr)) = tokens_file s)"
  using assms by (simp add: handleTokenRefresh_def saveTokens_cases Let_def)

theorem handleTokenRefresh_retains_refresh_token_witness:
  "tokens ready0 = Some tok0 \<and> cr_refresh_token fresh0 = None
   \<and> fst (handleTokenRefresh env0 ready0 fresh0) = Inr ()
   \<and> fst (handleTokenRefresh env_readonly ready0 fresh0) \<noteq> Inr ()
   \<and> (\<exists>t'. tokens (snd (handleTokenRefresh env0 ready0 fresh0)) = Some t'
         \<and> refresh_token t' = Some ''r0'' \<and> access_token t' = ''new''
         \<and> expiry_date t' = 5000000)
   \<and> tokens (snd (handleTokenRefresh env_readonly ready0 fresh0)) = Some tok0"
  using handleTokenRefresh_retains_refresh_token [of ready0 tok0 fresh0 env0]
    handleTokenRefresh_retains_refresh_token [of ready0 tok0 fresh0 env_readonly]
  by (simp add: ready0_def tok0_def fresh0_def env0_def env_readonly_def handleTokenRefresh_def
      saveTokens_cases or_string_def or_number_def Let_def)


lemma initialize_reaches_ready0:
  "initialize env0 (new_AuthService\<lparr>data_dir := True, tokens_file := Parsed (Some tok0)\<rparr>)
     = (Inr (), ready0)"
  by (simp add: initialize_def loadCredentials_def loadTokens_def createOAuth2Client_def
      env0_def new_AuthService_def ready0_def creds0_def cfg0_def client0_def)

lemma initialize_reaches_half0: "snd (initialize env0 bad_token_disk) = half0"
  by (simp add: initialize_def loadCredentials_def loadTokens_def
      env0_def new_AuthService_def bad_token_disk_def half0_def)

lemma clearTokens_reaches_unauth0: "clearTokens env0 ready0 = unauth0\<lparr>trace := [ProviderRevoke, FsUnlink]\<rparr>"
  by (simp add: clearTokens_def ready0_def unauth0_def env0_def logged_def)







text \<open>
  C7, as the code has it. When the provider rejects the code, \<open>exchangeCode\<close> fails with
  the provider's own error; when the answer holds no access token, it fails with a plain
  \<open>Error\<close> whose message is \<open>No access token received\<close>. Neither carries an error
  code, and in both cases nothing but the request is done.
\<close>

theorem exchangeCode_failures:
  assumes "oauth2Client s = Some c"
  shows "(getToken e code = Inl msg \<longrightarrow>
            exchangeCode e s code = (Inl (ProviderError msg), logged (ProviderGetToken code) s)
            \<and> error_code (ProviderError msg) = None)
         \<and> (getToken e code = Inr tk \<and> or_string (cr_access_token tk) [] = [] \<longrightarrow>
            exchangeCode e s code
              = (Inl (PlainError ''No access token received''), logged (ProviderGetToken code) s)
            \<and> error_code (PlainError ''No access token received'') = None)"
  using assms by (simp add: exchangeCode_def Let_def)

theorem exchangeCode_failures_witness:
  "oauth2Client unauth0 = Some (client0\<lparr>client_credentials := None\<rparr>)
   \<and> getToken env0 ''bad'' = Inl ''invalid_grant''
   \<and> fst (exchangeCode env0 unauth0 ''bad'') = Inl (ProviderError ''invalid_grant'')
   \<and> getToken env_no_access ''validcode'' = Inr (fresh0\<lparr>cr_access_token := None\<rparr>)
   \<and> or_string (cr_access_token (fresh0\<lparr>cr_access_token := None\<rparr>)) [] = []
   \<and> fst (exchangeCode env_no_access unauth0 ''validcode'')
       = Inl (PlainError ''No access token received'')"
proof -
  have c: "oauth2Client unauth0 = Some (client0\<lparr>client_credentials := None\<rparr>)"
    by (simp add: unauth0_def)
  have g1: "getToken env0 ''bad'' = Inl ''invalid_grant''"
    by (simp add: env0_def)
  have g2: "getToken env_no_access ''validcode'' = Inr (fresh0\<lparr>cr_access_token := None\<rparr>)"
    by (simp add: env_no_access_def env0_def)
  have n: "or_string (cr_access_token (fresh0\<lparr>cr_access_token := None\<rparr>)) [] = []"
    by (simp add: or_string_def)
  show ?thesis
    using exchangeCode_failures [OF c, of env0 "''bad''" "''invalid_grant''" fresh0]
      exchangeCode_failures [OF c, of env_no_access "''validcode''" "''x''"
        "fresh0\<lparr>cr_access_token := None\<rparr>"]
      c g1 g2 n by simp
qed

text \<open>
  The claim C7 promises an error tagged as a failed token exchange. Both failures of
  \<open>exchangeCode\<close> carry no code at all.
\<close>

theorem exchangeCode_untagged_counterexample:
  "getToken env_no_access ''validcode'' = Inr (fresh0\<lparr>cr_access_token := None\<rparr>)
   \<and> fst (exchangeCode env_no_access unauth0 ''validcode'')
       = Inl (PlainError ''No access token received'')
   \<and> error_code (PlainError ''No access token received'') = None
   \<and> getToken env0 ''bad'' = Inl ''invalid_grant''
   \<and> fst (exchangeCode env0 unauth0 ''bad'') = Inl (ProviderError ''invalid_grant'')
   \<and> error_code (ProviderError ''invalid_grant'') = None"
  by (simp add: exchangeCode_def Let_def env_no_access_def env0_def unauth0_def fresh0_def
      or_string_def)

lemma createOAuth2Client_result:
  "fst (createOAuth2Client s) =
     (case credentials s of
        None \<Rightarrow> Inl (CalendarError ''Credentials not loaded'' AUTH_NOT_CONFIGURED)
      | Some c \<Rightarrow>
          if installed c = None \<and> web c = None
          then Inl (CalendarError ''Invalid credentials format'' AUTH_NOT_CONFIGURED)
          else Inr ())"
  by (auto simp: createOAuth2Client_def split: option.splits)

lemma createOAuth2Client_frame:
  "credentials (snd (createOAuth2Client s)) = credentials s"
  "tokens (snd (createOAuth2Client s)) = tokens s"
  "initialized (snd (createOAuth2Client s)) = initialized s"
  "data_dir (snd (createOAuth2Client s)) = data_dir s"
  "tokens_file (snd (createOAuth2Client s)) = tokens_file s"
  "trace (snd (createOAuth2Client s)) = trace s"
  by (auto simp: createOAuth2Client_def split: option.splits)

lemma createOAuth2Client_client:
  "fst (createOAuth2Client s) = Inr () \<Longrightarrow> oauth2Client (snd (createOAuth2Client s)) \<noteq> None"
  "fst (createOAuth2Client s) \<noteq> Inr () \<Longrightarrow> snd (createOAuth2Client s) = s"
  by (auto simp: createOAuth2Client_def split: option.splits)

lemma initialize_unfold:
  "\<not> initialized s \<Longrightarrow> initialize e s =
     (case credentials_file e of
        Missing \<Rightarrow> (Inl (CalendarError
               ''OAuth credentials not found. Place credentials.json in config/''
               AUTH_NOT_CONFIGURED), s)
      | Parsed c \<Rightarrow>
          (case tokens_file s of
             Missing \<Rightarrow>
               (case fst (createOAuth2Client (s\<lparr>credentials := c, tokens := None\<rparr>)) of
                  Inl err \<Rightarrow> (Inl err, s\<lparr>credentials := c, tokens := None\<rparr>)
                | Inr _ \<Rightarrow> (Inr (), (snd (createOAuth2Client (s\<lparr>credentials := c, tokens := None\<rparr>)))
                                     \<lparr>initialized := True\<rparr>))
           | Parsed t \<Rightarrow>
               (case fst (createOAuth2Client (s\<lparr>credentials := c, tokens := t\<rparr>)) of
                  Inl err \<Rightarrow> (Inl err, s\<lparr>credentials := c, tokens := t\<rparr>)
                | Inr _ \<Rightarrow> (Inr (), (snd (createOAuth2Client (s\<lparr>credentials := c, tokens := t\<rparr>)))
                                     \<lparr>initialized := True\<rparr>))
           | _ \<Rightarrow> (Inl (CalendarError ''Failed to load tokens'' PARSE_ERROR),
                   s\<lparr>credentials := c\<rparr>))
      | _ \<Rightarrow> (Inl (CalendarError ''Failed to load credentials'' PARSE_ERROR), s))"
  by (auto simp: initialize_def loadCredentials_def loadTokens_def createOAuth2Client_def
      split: json_file.splits option.splits sum.splits prod.splits)

text \<open>
  C8, as the code has it. On a service that is not yet initialised, \<open>initialize\<close> reads
  the credentials file, then the token file, then builds the client, and fails at the
  first of these that fails. It fails with \<open>AUTH_NOT_CONFIGURED\<close> when the credentials
  file is missing, and with \<open>PARSE_ERROR\<close> when the credentials file cannot be read for
  another reason or is not JSON. When the credentials file parses, whatever it holds,
  \<open>initialize\<close> fails with \<open>PARSE_ERROR\<close> when the token file cannot be read or is not
  JSON; when the token file is missing or parses, it fails with \<open>AUTH_NOT_CONFIGURED\<close>
  when the credentials are \<open>null\<close> or have neither an \<open>installed\<close> nor a \<open>web\<close>
  part. With usable credentials it succeeds and leaves the service initialised, with a
  client: without a token record, and so not authenticated, when the token file is
  missing, and with the parsed record when the token file parses.
\<close>

theorem initialize_outcomes:
  assumes "\<not> initialized s"
  shows "(credentials_file e = Missing \<longrightarrow>
            fst (initialize e s) = Inl (CalendarError
               ''OAuth credentials not found. Place credentials.json in config/''
               AUTH_NOT_CONFIGURED))
         \<and> (credentials_file e = Unreadable \<or> credentials_file e = Malformed \<longrightarrow>
            fst (initialize e s) = Inl (CalendarError ''Failed to load credentials'' PARSE_ERROR))
         \<and> (credentials_file e = Parsed None
              \<and> (tokens_file s = Missing \<or> tokens_file s = Parsed t) \<longrightarrow>
            fst (initialize e s) = Inl (CalendarError ''Credentials not loaded'' AUTH_NOT_CONFIGURED))
         \<and> (credentials_file e = Parsed (Some c) \<and> installed c = None \<and> web c = None
              \<and> (tokens_file s = Missing \<or> tokens_file s = Parsed t) \<longrightarrow>
            fst (initialize e s)
              = Inl (CalendarError ''Invalid credentials format'' AUTH_NOT_CONFIGURED))
         \<and> (credentials_file e = Parsed b
              \<and> (tokens_file s = Unreadable \<or> tokens_file s = Malformed) \<longrightarrow>
            fst (initialize e s) = Inl (CalendarError ''Failed to load tokens'' PARSE_ERROR))
         \<and> (credentials_file e = Parsed (Some c) \<and> (installed c \<noteq> None \<or> web c \<noteq> None)
              \<and> tokens_file s = Missing \<longrightarrow>
            fst (initialize e s) = Inr ()
            \<and> initialized (snd (initialize e s))
            \<and> tokens (snd (initialize e s)) = None
            \<and> \<not> isAuthenticated (snd (initialize e s))
            \<and> oauth2Client (snd (initialize e s)) \<noteq> None)
         \<and> (credentials_file e = Parsed (Some c) \<and> (installed c \<noteq> None \<or> web c \<noteq> None)
              \<and> tokens_file s = Parsed t \<longrightarrow>
            fst (initialize e s) = Inr ()
            \<and> initialized (snd (initialize e s))
            \<and> tokens (snd (initialize e s)) = t
            \<and> oauth2Client (snd (initialize e s)) \<noteq> None)"
proof -
  note u = initialize_unfold [OF assms, of e]
  have 1: "credentials_file e = Missing \<longrightarrow>
            fst (initialize e s) = Inl (CalendarError
               ''OAuth credentials not found. Place credentials.json in config/''
               AUTH_NOT_CONFIGURED)"
    by (simp add: u)
  have 2: "credentials_file e = Unreadable \<or> credentials_file e = Malformed \<longrightarrow>
            fst (initialize e s) = Inl (CalendarError ''Failed to load credentials'' PARSE_ERROR)"
    by (auto simp: u)
  have 3: "credentials_file e = Parsed None
              \<and> (tokens_file s = Missing \<or> tokens_file s = Parsed t) \<longrightarrow>
            fst (initialize e s) = Inl (CalendarError ''Credentials not loaded'' AUTH_NOT_CONFIGURED)"
    by (auto simp: u createOAuth2Client_result)
  have 4: "credentials_file e = Parsed (Some c) \<and> installed c = None \<and> web c = None
              \<and> (tokens_file s = Missing \<or> tokens_file s = Parsed t) \<longrightarrow>
            fst (initialize e s)
              = Inl (CalendarError ''Invalid credentials format'' AUTH_NOT_CONFIGURED)"
    by (auto simp: u createOAuth2Client_result)
  have 5: "credentials_file e = Parsed b
              \<and> (tokens_file s = Unreadable \<or> tokens_file s = Malformed) \<longrightarrow>
            fst (initialize e s) = Inl (CalendarError ''Failed to load tokens'' PARSE_ERROR)"
    by (auto simp: u)
  have 6: "credentials_file e = Parsed (Some c) \<and> (installed c \<noteq> None \<or> web c \<noteq> None)
              \<and> tokens_file s = Missing \<longrightarrow>
            fst (initialize e s) = Inr ()
            \<and> initialized (snd (initialize e s))
            \<and> tokens (snd (initialize e s)) = None
            \<and> \<not> isAuthenticated (snd (initialize e s))
            \<and> oauth2Client (snd (initialize e s)) \<noteq> None"
    by (auto simp: u createOAuth2Client_def isAuthenticated_def split: option.splits)
  have 7: "credentials_file e = Parsed (Some c) \<and> (installed c \<noteq> None \<or> web c \<noteq> None)
              \<and> tokens_file s = Parsed t \<longrightarrow>
            fst (initialize e s) = Inr ()
            \<and> initialized (snd (initialize e s))
            \<and> tokens (snd (initialize e s)) = t
            \<and> oauth2Client (snd (initialize e s)) \<noteq> None"
    by (auto simp: u createOAuth2Client_def split: option.splits)
  show ?thesis using 1 2 3 4 5 6 7 by blast
qed

theorem initialize_outcomes_witness:
  "\<not> initialized new_AuthService
   \<and> credentials_file env_no_credentials = Missing
   \<and> (\<exists>m. fst (initialize env_no_credentials new_AuthService) = Inl (CalendarError m AUTH_NOT_CONFIGURED))
   \<and> credentials_file env_bad_credentials = Malformed
   \<and> (\<exists>m. fst (initialize env_bad_credentials new_AuthService) = Inl (CalendarError m PARSE_ERROR))
   \<and> credentials_file (env0\<lparr>credentials_file := Parsed None\<rparr>) = Parsed None
   \<and> credentials_file (env0\<lparr>credentials_file := Parsed (Some \<lparr>installed = None, web = None\<rparr>)\<rparr>)
        = Parsed (Some \<lparr>installed = None, web = None\<rparr>)
   \<and> installed \<lparr>installed = None, web = None\<rparr> = None \<and> web \<lparr>installed = None, web = None\<rparr> = None
   \<and> tokens_file new_AuthService = Missing
   \<and> (\<exists>m. fst (initialize (env0\<lparr>credentials_file := Parsed None\<rparr>) new_AuthService)
          = Inl (CalendarError m AUTH_NOT_CONFIGURED))
   \<and> (\<exists>m. fst (initialize (env0\<lparr>credentials_file := Parsed (Some \<lparr>installed = None, web = None\<rparr>)\<rparr>)
               new_AuthService) = Inl (CalendarError m AUTH_NOT_CONFIGURED))
   \<and> \<not> initialized bad_token_disk \<and> credentials_file env0 = Parsed (Some creds0)
   \<and> tokens_file bad_token_disk = Malformed
   \<and> (\<exists>m. fst (initialize env0 bad_token_disk) = Inl (CalendarError m PARSE_ERROR))
   \<and> installed creds0 \<noteq> None
   \<and> fst (initialize env0 new_AuthService) = Inr ()
   \<and> tokens (snd (initialize env0 new_AuthService)) = None
   \<and> \<not> isAuthenticated (snd (initialize env0 new_AuthService))
   \<and> tokens_file (new_AuthService\<lparr>data_dir := True, tokens_file := Parsed (Some tok0)\<rparr>) = Parsed (Some tok0)
   \<and> fst (initialize env0 (new_AuthService\<lparr>data_dir := True, tokens_file := Parsed (Some tok0)\<rparr>)) = Inr ()
   \<and> tokens (snd (initialize env0 (new_AuthService\<lparr>data_dir := True, tokens_file := Parsed (Some tok0)\<rparr>))) = Some tok0"
proof -
  have n: "\<not> initialized new_AuthService" "tokens_file new_AuthService = Missing"
    by (simp_all add: new_AuthService_def)
  have b: "\<not> initialized bad_token_disk" "tokens_file bad_token_disk = Malformed"
    by (simp_all add: bad_token_disk_def new_AuthService_def)
  have f: "credentials_file env_no_credentials = Missing"
    "credentials_file env_bad_credentials = Malformed"
    "credentials_file env0 = Parsed (Some creds0)" "installed creds0 \<noteq> None"
    by (simp_all add: env_no_credentials_def env_bad_credentials_def env0_def creds0_def)
  have old:
    "\<not> initialized new_AuthService
       \<and> credentials_file env_no_credentials = Missing
       \<and> (\<exists>m. fst (initialize env_no_credentials new_AuthService) = Inl (CalendarError m AUTH_NOT_CONFIGURED))
       \<and> credentials_file env_bad_credentials = Malformed
       \<and> (\<exists>m. fst (initialize env_bad_credentials new_AuthService) = Inl (CalendarError m PARSE_ERROR))
       \<and> credentials_file (env0\<lparr>credentials_file := Parsed None\<rparr>) = Parsed None
       \<and> credentials_file (env0\<lparr>credentials_file := Parsed (Some \<lparr>installed = None, web = None\<rparr>)\<rparr>)
            = Parsed (Some \<lparr>installed = None, web = None\<rparr>)
       \<and> installed \<lparr>installed = None, web = None\<rparr> = None \<and> web \<lparr>installed = None, web = None\<rparr> = None
       \<and> tokens_file new_AuthService = Missing
       \<and> (\<exists>m. fst (initialize (env0\<lparr>credentials_file := Parsed None\<rparr>) new_AuthService)
              = Inl (CalendarError m AUTH_NOT_CONFIGURED))
       \<and> (\<exists>m. fst (initialize (env0\<lparr>credentials_file := Parsed (Some \<lparr>installed = None, web = None\<rparr>)\<rparr>)
                   new_AuthService) = Inl (CalendarError m AUTH_NOT_CONFIGURED))
       \<and> \<not> initialized bad_token_disk \<and> credentials_file env0 = Parsed (Some creds0)
       \<and> tokens_file bad_token_disk = Malformed
       \<and> (\<exists>m. fst (initialize env0 bad_token_disk) = Inl (CalendarError m PARSE_ERROR))
       \<and> installed creds0 \<noteq> None
       \<and> fst (initialize env0 new_AuthService) = Inr ()
       \<and> tokens (snd (initialize env0 new_AuthService)) = None
       \<and> \<not> isAuthenticated (snd (initialize env0 new_AuthService))"
    using initialize_outcomes [OF n(1), of env_no_credentials]
      initialize_outcomes [OF n(1), of env_bad_credentials]
      initialize_outcomes [OF n(1), of "env0\<lparr>credentials_file := Parsed None\<rparr>" None]
      initialize_outcomes [OF n(1),
        of "env0\<lparr>credentials_file := Parsed (Some \<lparr>installed = None, web = None\<rparr>)\<rparr>"
           None "\<lparr>installed = None, web = None\<rparr>"]
      initialize_outcomes [OF b(1), of env0 None creds0 "Some creds0"]
      initialize_outcomes [OF n(1), of env0 None creds0]
      n b f
    by simp
  have d: "\<not> initialized (new_AuthService\<lparr>data_dir := True, tokens_file := Parsed (Some tok0)\<rparr>)" "tokens_file (new_AuthService\<lparr>data_dir := True, tokens_file := Parsed (Some tok0)\<rparr>) = Parsed (Some tok0)"
    by (simp_all add: new_AuthService_def)
  have new: "fst (initialize env0 (new_AuthService\<lparr>data_dir := True, tokens_file := Parsed (Some tok0)\<rparr>)) = Inr ()"
    "tokens (snd (initialize env0 (new_AuthService\<lparr>data_dir := True, tokens_file := Parsed (Some tok0)\<rparr>))) = Some tok0"
    using initialize_outcomes [OF d(1), of env0 "Some tok0" creds0] d(2) f(3,4) by blast+
  show ?thesis
    using old d(2) new by blast
qed

text \<open>
  The claim C8 promises \<open>AUTH_NOT_CONFIGURED\<close> for a malformed credential bundle and a
  successful \<open>initialize\<close> for an unreadable token record. A credentials file that is not
  JSON gives \<open>PARSE_ERROR\<close>, and so does a token file that is not JSON.
\<close>

theorem initialize_parse_error_counterexample:
  "credentials_file env_bad_credentials = Malformed
   \<and> fst (initialize env_bad_credentials new_AuthService)
       = Inl (CalendarError ''Failed to load credentials'' PARSE_ERROR)
   \<and> credentials_file env0 = Parsed (Some creds0)
   \<and> tokens_file bad_token_disk = Malformed
   \<and> fst (initialize env0 bad_token_disk)
       = Inl (CalendarError ''Failed to load tokens'' PARSE_ERROR)"
  by (simp add: initialize_def loadCredentials_def loadTokens_def env_bad_credentials_def
      env0_def new_AuthService_def bad_token_disk_def)

lemma generateAuthUrl_frame:
  "credentials (snd (generateAuthUrl e s)) = credentials s"
  "tokens (snd (generateAuthUrl e s)) = tokens s"
  "initialized (snd (generateAuthUrl e s)) = initialized s"
  "data_dir (snd (generateAuthUrl e s)) = data_dir s"
  "tokens_file (snd (generateAuthUrl e s)) = tokens_file s"
  "trace (snd (generateAuthUrl e s)) = trace s"
  "oauth2Client s \<noteq> None \<Longrightarrow> snd (generateAuthUrl e s) = s"
  by (auto simp: generateAuthUrl_def createOAuth2Client_def Let_def
      split: option.splits sum.splits prod.splits)

lemma getStatus_state:
  "snd (getStatus e s) = s \<or> snd (getStatus e s) = snd (generateAuthUrl e s)"
  by (auto simp: getStatus_def Let_def split: option.splits sum.splits prod.splits)

lemma getStatus_frame:
  "credentials (snd (getStatus e s)) = credentials s"
  "tokens (snd (getStatus e s)) = tokens s"
  "initialized (snd (getStatus e s)) = initialized s"
  "data_dir (snd (getStatus e s)) = data_dir s"
  "tokens_file (snd (getStatus e s)) = tokens_file s"
  "trace (snd (getStatus e s)) = trace s"
  using getStatus_state [of e s] generateAuthUrl_frame(1-6) [of e s] by auto

lemma getStatus_unchanged:
  "oauth2Client s \<noteq> None \<Longrightarrow> snd (getStatus e s) = s"
  using getStatus_state [of e s] generateAuthUrl_frame(7) [of s e] by auto

lemma getStatus_state_env: "snd (getStatus e s) = snd (getStatus e' s)"
  by (auto simp: getStatus_def generateAuthUrl_def createOAuth2Client_def Let_def
      split: option.splits sum.splits prod.splits)

lemma generateAuthUrl_changed:
  "snd (generateAuthUrl e s) \<noteq> s \<Longrightarrow> oauth2Client (snd (generateAuthUrl e s)) \<noteq> None"
  by (auto simp: generateAuthUrl_def createOAuth2Client_def Let_def
      split: option.splits sum.splits prod.splits)

lemma getStatus_calls_stable:
  "(\<And>e. snd (getStatus e s) = s) \<Longrightarrow> getStatus_calls es s = s"
  by (induction es) simp_all

lemma getStatus_calls_keeps:
  "credentials (getStatus_calls es s) = credentials s
   \<and> tokens (getStatus_calls es s) = tokens s
   \<and> initialized (getStatus_calls es s) = initialized s
   \<and> data_dir (getStatus_calls es s) = data_dir s
   \<and> tokens_file (getStatus_calls es s) = tokens_file s
   \<and> trace (getStatus_calls es s) = trace s
   \<and> (oauth2Client s \<noteq> None \<longrightarrow> getStatus_calls es s = s)"
proof (induction es arbitrary: s)
  case Nil
  show ?case by simp
next
  case (Cons e es)
  show ?case
    using Cons.IH [of "snd (getStatus e s)"] getStatus_frame [of e s]
      getStatus_unchanged [of s e]
    by auto
qed

lemma getStatus_first_call: "getStatus_calls (e # es) s = snd (getStatus e s)"
proof (cases "snd (getStatus e s) = s")
  case True
  then have "\<And>e'. snd (getStatus e' s) = s"
    using getStatus_state_env [of e s] by metis
  then have "getStatus_calls es s = s" by (rule getStatus_calls_stable)
  then show ?thesis using True by simp
next
  case False
  then have "snd (getStatus e s) = snd (generateAuthUrl e s)"
    using getStatus_state [of e s] by auto
  then have "oauth2Client (snd (getStatus e s)) \<noteq> None"
    using False generateAuthUrl_changed [of e s] by auto
  then show ?thesis
    using getStatus_calls_keeps [of es "snd (getStatus e s)"] by simp
qed

lemma getStatus_creates_client:
  assumes "oauth2Client s = None" and "credentials s = Some c"
    and "(case installed c of Some cfg \<Rightarrow> Some cfg | None \<Rightarrow> web c) = Some clientConfig"
    and "case tokens s of None \<Rightarrow> True
         | Some t \<Rightarrow> expiry_date t = 0 \<or> valid_time (expiry_date t)"
  shows "snd (getStatus e s)
           = s\<lparr>oauth2Client := Some
                 \<lparr>clientId = client_id clientConfig,
                  clientSecret = client_secret clientConfig,
                  redirectUri = ''urn:ietf:wg:oauth:2.0:oob'',
                  client_credentials = tokens s,
                  tokens_listeners = 1\<rparr>\<rparr>"
  using assms
  by (auto simp: getStatus_def isAuthenticated_def generateAuthUrl_def createOAuth2Client_def
      Let_def split: option.splits)

lemma getStatus_creates_nothing:
  assumes "oauth2Client s = None"
    and "credentials s = None
         \<or> (\<exists>c. credentials s = Some c \<and> installed c = None \<and> web c = None)
         \<or> (\<exists>t. tokens s = Some t \<and> expiry_date t \<noteq> 0 \<and> \<not> valid_time (expiry_date t))"
  shows "snd (getStatus e s) = s"
  using assms
  by (auto simp: getStatus_def isAuthenticated_def generateAuthUrl_def createOAuth2Client_def
      Let_def split: option.splits)


text \<open>
  C3, as the code has it. However often \<open>getStatus\<close> is called, and whatever the clock
  shows, the credentials, the token record, the initialised flag, the disk and the log of
  requests and writes stay as they were: nothing is written and the provider is not
  called. When the service already holds its OAuth2 client, as it does after a successful
  \<open>initialize\<close>, the whole state stays as it was. Only the first call can change
  anything, and only the client field: when the client is missing, the first call creates
  it, from the \<open>installed\<close> part of the loaded credentials or else from their \<open>web\<close>
  part and with the token record the service holds, provided that the expiry of the
  token record, if there is one and it is not zero, is inside the range of \<open>Date\<close>.
  When the client is missing and no credentials are loaded, or they have neither part, or
  the expiry is outside that range, the state stays as it was.
\<close>

theorem getStatus_calls_frame:
  "credentials (getStatus_calls es s) = credentials s
   \<and> tokens (getStatus_calls es s) = tokens s
   \<and> initialized (getStatus_calls es s) = initialized s
   \<and> data_dir (getStatus_calls es s) = data_dir s
   \<and> tokens_file (getStatus_calls es s) = tokens_file s
   \<and> trace (getStatus_calls es s) = trace s
   \<and> (oauth2Client s \<noteq> None \<longrightarrow> getStatus_calls es s = s)
   \<and> getStatus_calls (e # es) s = snd (getStatus e s)
   \<and> (oauth2Client s = None \<and> credentials s = Some c
        \<and> (case installed c of Some cfg \<Rightarrow> Some cfg | None \<Rightarrow> web c) = Some clientConfig
        \<and> (case tokens s of None \<Rightarrow> True
            | Some t \<Rightarrow> expiry_date t = 0 \<or> valid_time (expiry_date t)) \<longrightarrow>
        snd (getStatus e s)
          = s\<lparr>oauth2Client := Some
                \<lparr>clientId = client_id clientConfig,
                 clientSecret = client_secret clientConfig,
                 redirectUri = ''urn:ietf:wg:oauth:2.0:oob'',
                 client_credentials = tokens s,
                 tokens_listeners = 1\<rparr>\<rparr>)
   \<and> (oauth2Client s = None
        \<and> (credentials s = None
            \<or> (\<exists>b. credentials s = Some b \<and> installed b = None \<and> web b = None)
            \<or> (\<exists>t. tokens s = Some t \<and> expiry_date t \<noteq> 0
                   \<and> \<not> valid_time (expiry_date t))) \<longrightarrow>
        snd (getStatus e s) = s)"
  using getStatus_calls_keeps [of es s] getStatus_first_call [of e es s]
    getStatus_creates_client [of s c clientConfig e] getStatus_creates_nothing [of s e]
  by blast

theorem getStatus_calls_frame_witness:
  "oauth2Client ready0 \<noteq> None \<and> getStatus_calls [env0, env_far, env0] ready0 = ready0
   \<and> trace (getStatus_calls [env0, env0] half0) = trace half0
   \<and> tokens_file (getStatus_calls [env0, env0] half0) = tokens_file half0
   \<and> oauth2Client half0 = None \<and> credentials half0 = Some creds0
   \<and> (case installed creds0 of Some cfg \<Rightarrow> Some cfg | None \<Rightarrow> web creds0) = Some cfg0
   \<and> (case tokens half0 of None \<Rightarrow> True
       | Some t \<Rightarrow> expiry_date t = 0 \<or> valid_time (expiry_date t))
   \<and> getStatus_calls [env0, env_far] half0
       = half0\<lparr>oauth2Client := Some
                 \<lparr>clientId = ''id'', clientSecret = ''secret'',
                  redirectUri = ''urn:ietf:wg:oauth:2.0:oob'',
                  client_credentials = None, tokens_listeners = 1\<rparr>\<rparr>
   \<and> oauth2Client new_AuthService = None \<and> credentials new_AuthService = None
   \<and> snd (getStatus env0 new_AuthService) = new_AuthService
   \<and> credentials (half0\<lparr>credentials := Some \<lparr>installed = None, web = None\<rparr>\<rparr>)
       = Some \<lparr>installed = None, web = None\<rparr>
   \<and> snd (getStatus env0 (half0\<lparr>credentials := Some \<lparr>installed = None, web = None\<rparr>\<rparr>))
       = half0\<lparr>credentials := Some \<lparr>installed = None, web = None\<rparr>\<rparr>
   \<and> tokens (half0\<lparr>tokens := Some (tok0\<lparr>expiry_date := 9000000000000000\<rparr>)\<rparr>)
       = Some (tok0\<lparr>expiry_date := 9000000000000000\<rparr>)
   \<and> \<not> valid_time (expiry_date (tok0\<lparr>expiry_date := 9000000000000000\<rparr>))
   \<and> snd (getStatus env0 (half0\<lparr>tokens := Some (tok0\<lparr>expiry_date := 9000000000000000\<rparr>)\<rparr>))
       = half0\<lparr>tokens := Some (tok0\<lparr>expiry_date := 9000000000000000\<rparr>)\<rparr>"
proof -
  let ?empty = "half0\<lparr>credentials := Some \<lparr>installed = None, web = None\<rparr>\<rparr>"
  let ?late = "half0\<lparr>tokens := Some (tok0\<lparr>expiry_date := 9000000000000000\<rparr>)\<rparr>"
  have c: "oauth2Client ready0 \<noteq> None" by (simp add: ready0_def)
  have h: "oauth2Client half0 = None" "credentials half0 = Some creds0"
    "(case installed creds0 of Some cfg \<Rightarrow> Some cfg | None \<Rightarrow> web creds0) = Some cfg0"
    "case tokens half0 of None \<Rightarrow> True
       | Some t \<Rightarrow> expiry_date t = 0 \<or> valid_time (expiry_date t)"
    "tokens half0 = None"
    by (simp_all add: half0_def creds0_def)
  have n: "oauth2Client new_AuthService = None" "credentials new_AuthService = None"
    by (simp_all add: new_AuthService_def)
  have m: "oauth2Client ?empty = None"
    "credentials ?empty = Some \<lparr>installed = None, web = None\<rparr>"
    by (simp_all add: half0_def)
  have l: "oauth2Client ?late = None"
    "tokens ?late = Some (tok0\<lparr>expiry_date := 9000000000000000\<rparr>)"
    "expiry_date (tok0\<lparr>expiry_date := 9000000000000000\<rparr>) \<noteq> 0"
    "\<not> valid_time (expiry_date (tok0\<lparr>expiry_date := 9000000000000000\<rparr>))"
    by (simp_all add: half0_def valid_time_def)
  have a: "getStatus_calls [env0, env_far, env0] ready0 = ready0"
    using getStatus_calls_frame [of "[env0, env_far, env0]" ready0] c by blast
  have b: "trace (getStatus_calls [env0, env0] half0) = trace half0"
    "tokens_file (getStatus_calls [env0, env0] half0) = tokens_file half0"
    using getStatus_calls_frame [of "[env0, env0]" half0] by blast+
  note t = getStatus_calls_frame [of "[env_far]" half0 env0 creds0 cfg0]
  have f1: "getStatus_calls [env0, env_far] half0 = snd (getStatus env0 half0)"
    using t by blast
  have f2: "snd (getStatus env0 half0)
       = half0\<lparr>oauth2Client := Some
                 \<lparr>clientId = client_id cfg0, clientSecret = client_secret cfg0,
                  redirectUri = ''urn:ietf:wg:oauth:2.0:oob'',
                  client_credentials = tokens half0, tokens_listeners = 1\<rparr>\<rparr>"
    using t h(1-4) by blast
  have d: "getStatus_calls [env0, env_far] half0
       = half0\<lparr>oauth2Client := Some
                 \<lparr>clientId = ''id'', clientSecret = ''secret'',
                  redirectUri = ''urn:ietf:wg:oauth:2.0:oob'',
                  client_credentials = None, tokens_listeners = 1\<rparr>\<rparr>"
    unfolding f1 f2 by (simp add: h(5) cfg0_def)
  have e1: "snd (getStatus env0 new_AuthService) = new_AuthService"
    using getStatus_calls_frame [of "[]" new_AuthService env0] n by blast
  have e2: "snd (getStatus env0 ?empty) = ?empty"
    using getStatus_calls_frame [of "[]" ?empty env0] m by simp
  have e3: "snd (getStatus env0 ?late) = ?late"
    using getStatus_calls_frame [of "[]" ?late env0] l by blast
  show ?thesis
    using c h(1-4) n m(2) l(2,4) a b d e1 e2 e3 by simp
qed

text \<open>
  The claim C3 promises that \<open>getStatus\<close> changes no state of the manager in any state.
  After an \<open>initialize\<close> that loaded the credentials and then failed on a token file
  that is not JSON, the service has no client; \<open>getStatus\<close> then creates one, through
  \<open>generateAuthUrl\<close>, and the state is no longer the same.
\<close>

theorem getStatus_creates_client_counterexample:
  "snd (initialize env0 bad_token_disk) = half0
   \<and> oauth2Client half0 = None
   \<and> oauth2Client (snd (getStatus env0 half0))
       = Some \<lparr>clientId = ''id'', clientSecret = ''secret'',
               redirectUri = ''urn:ietf:wg:oauth:2.0:oob'',
               client_credentials = None, tokens_listeners = 1\<rparr>
   \<and> snd (getStatus env0 half0) \<noteq> half0"
proof -
  have a: "snd (initialize env0 bad_token_disk) = half0"
    by (simp add: initialize_def loadCredentials_def loadTokens_def
      env0_def new_AuthService_def bad_token_disk_def half0_def)
  have b: "oauth2Client half0 = None" by (simp add: half0_def)
  have c: "oauth2Client (snd (getStatus env0 half0))
       = Some \<lparr>clientId = ''id'', clientSecret = ''secret'',
               redirectUri = ''urn:ietf:wg:oauth:2.0:oob'',
               client_credentials = None, tokens_listeners = 1\<rparr>"
    by (simp add: getStatus_def isAuthenticated_def needsRefresh_def generateAuthUrl_def
        createOAuth2Client_def half0_def creds0_def cfg0_def Let_def)
  have d: "snd (getStatus env0 half0) \<noteq> half0"
    using b c by auto
  show ?thesis using a b c d by blast
qed

text \<open>
  C9, as the code has it. After \<open>clearTokens\<close> on an initialised service, which holds a
  client, the token record is gone and \<open>getClient\<close> fails with a \<open>CalendarError\<close> of
  code \<open>AUTH_TOKEN_INVALID\<close> whose message is \<open>Not authenticated. Visit: \<close> followed
  by the authorization URL the client computes; the URL in the error is not empty when the
  client's is not. The state is left as \<open>clearTokens\<close> left it.
\<close>

theorem getClient_after_clearTokens:
  assumes "initialized s" and "oauth2Client s = Some c"
  shows "getClient e2 (clearTokens e s)
           = (Inl (CalendarError
                     (''Not authenticated. Visit: ''
                        @ client_generateAuthUrl e2 (c\<lparr>client_credentials := None\<rparr>)
                            \<lparr>access_type = ''offline'', opt_scope = SCOPES, prompt = ''consent''\<rparr>)
                     AUTH_TOKEN_INVALID),
              clearTokens e s)
         \<and> tokens (clearTokens e s) = None
         \<and> (client_generateAuthUrl e2 (c\<lparr>client_credentials := None\<rparr>)
               \<lparr>access_type = ''offline'', opt_scope = SCOPES, prompt = ''consent''\<rparr> \<noteq> [] \<longrightarrow>
             (\<exists>url. url \<noteq> []
                \<and> fst (getClient e2 (clearTokens e s))
                    = Inl (CalendarError (''Not authenticated. Visit: '' @ url)
                             AUTH_TOKEN_INVALID)))"
proof -
  let ?s' = "clearTokens e s"
  have st: "initialized ?s'" "oauth2Client ?s' = Some (c\<lparr>client_credentials := None\<rparr>)"
    "tokens ?s' = None"
    using assms by (simp_all add: clearTokens_def logged_def Let_def)
  have "getClient e2 ?s'
           = (Inl (CalendarError
                     (''Not authenticated. Visit: ''
                        @ client_generateAuthUrl e2 (c\<lparr>client_credentials := None\<rparr>)
                            \<lparr>access_type = ''offline'', opt_scope = SCOPES, prompt = ''consent''\<rparr>)
                     AUTH_TOKEN_INVALID), ?s')"
    using st by (simp add: getClient_def isAuthenticated_def generateAuthUrl_def Let_def)
  then show ?thesis using st(3) by auto
qed

theorem getClient_after_clearTokens_witness:
  "initialized ready0 \<and> oauth2Client ready0 = Some client0
   \<and> client_generateAuthUrl env0 (client0\<lparr>client_credentials := None\<rparr>)
        \<lparr>access_type = ''offline'', opt_scope = SCOPES, prompt = ''consent''\<rparr> \<noteq> []
   \<and> fst (getClient env0 (clearTokens env0 ready0))
       = Inl (CalendarError
                (''Not authenticated. Visit: ''
                   @ ''https://accounts.google.com/o/oauth2/v2/auth?client_id=id'')
                AUTH_TOKEN_INVALID)"
proof -
  have st: "initialized ready0" "oauth2Client ready0 = Some client0"
    by (simp_all add: ready0_def)
  have u: "client_generateAuthUrl env0 (client0\<lparr>client_credentials := None\<rparr>)
        \<lparr>access_type = ''offline'', opt_scope = SCOPES, prompt = ''consent''\<rparr>
        = ''https://accounts.google.com/o/oauth2/v2/auth?client_id=id''"
    by (simp add: env0_def client0_def)
  show ?thesis
    using getClient_after_clearTokens [OF st, of env0 env0] st u by simp
qed

text \<open>
  The claim C9 speaks of every state reached by \<open>clearTokens\<close>. On a service that was
  never initialised and has no credentials file, \<open>clearTokens\<close> changes nothing and
  \<open>getClient\<close> fails in \<open>initialize\<close> with \<open>AUTH_NOT_CONFIGURED\<close>, without a URL.
\<close>

theorem clearTokens_unconfigured_counterexample:
  "clearTokens env_no_credentials new_AuthService = new_AuthService
   \<and> fst (getClient env_no_credentials (clearTokens env_no_credentials new_AuthService))
       = Inl (CalendarError
                ''OAuth credentials not found. Place credentials.json in config/''
                AUTH_NOT_CONFIGURED)"
  by (simp add: clearTokens_def getClient_def initialize_def loadCredentials_def
      env_no_credentials_def new_AuthService_def Let_def)

section \<open>Concurrent callers\<close>


lemma getClient_split_ready:
  assumes "initialized s" and "oauth2Client s = Some c" and "tokens s = Some t"
  shows "(case getClient_begin e s of (p, s1) \<Rightarrow> getClient_resume e s1 p)
           = (Settled (fst (getClient e s)), snd (getClient e s))"
  using assms
  by (auto simp: getClient_ready[OF assms] getClient_begin_def getClient_rest_def
      getClient_resume_def isAuthenticated_def logged_def
      split: sum.splits prod.splits option.splits dest!: handleTokenRefresh_result(1))


text \<open>
  The two parts of \<open>getClient\<close> agree with the method run in one piece: a call that
  begins and is resumed until it settles, with no other caller in between, ends with the
  result and the state of \<open>getClient\<close>.
\<close>

lemma getClient_rest_settles:
  "(case getClient_rest e s0 of (p, s1) \<Rightarrow> getClient_resume e s1 p)
     = (case oauth2Client s0 of
          None \<Rightarrow>
            (Settled (Inl (CalendarError ''OAuth2 client not initialized'' AUTH_NOT_CONFIGURED)), s0)
        | Some c \<Rightarrow>
            if \<not> isAuthenticated s0 then
              (case generateAuthUrl e s0 of
                 (Inl err, s1) \<Rightarrow> (Settled (Inl err), s1)
               | (Inr authUrl, s1) \<Rightarrow>
                   (Settled (Inl (CalendarError (''Not authenticated. Visit: '' @ authUrl)
                                    AUTH_TOKEN_INVALID)), s1))
            else if needsRefresh e s0 then
              (case refreshAccessToken e (count_refresh (trace s0)) of
                 Inl msg \<Rightarrow> (Settled (Inl (ProviderError msg)), logged ProviderRefresh s0)
               | Inr cr \<Rightarrow>
                   (case handleTokenRefresh e (logged ProviderRefresh s0) cr of
                      (Inl err, s2) \<Rightarrow> (Settled (Inl err), s2)
                    | (Inr _, s2) \<Rightarrow>
                        (case oauth2Client s2 of
                           Some c2 \<Rightarrow> (Settled (Inr c2), s2)
                         | None \<Rightarrow> (Settled (Inl (PlainError ''TypeError'')), s2))))
            else (Settled (Inr c), s0))"
  by (simp add: getClient_rest_def getClient_resume_def split: option.splits prod.splits sum.splits)

lemma getClient_resume_Settled: "getClient_resume e s (Settled r) = (Settled r, s)"
  by (simp add: getClient_resume_def)

lemma getClient_rest_twice:
  "(case getClient_rest e s0 of (p, s1) \<Rightarrow>
      case getClient_resume e s1 p of (p2, s2) \<Rightarrow> getClient_resume e s2 p2)
   = (case getClient_rest e s0 of (p, s1) \<Rightarrow> getClient_resume e s1 p)"
proof -
  obtain p2 s2 where r: "(case getClient_rest e s0 of (p, s1) \<Rightarrow> getClient_resume e s1 p) = (p2, s2)"
    by (cases "case getClient_rest e s0 of (p, s1) \<Rightarrow> getClient_resume e s1 p") auto
  have "\<exists>x. p2 = Settled x"
    using r unfolding getClient_rest_settles
    by (auto split: option.splits prod.splits sum.splits if_splits)
  then show ?thesis
    using r by (auto simp: getClient_resume_Settled split: prod.splits)
qed

lemma getClient_split:
  "(case getClient_begin e s of (p, s1) \<Rightarrow>
      case getClient_resume e s1 p of (p2, s2) \<Rightarrow> getClient_resume e s2 p2)
   = (Settled (fst (getClient e s)), snd (getClient e s))"
proof (cases "initialized s")
  case True
  have "(case getClient_rest e s of (p, s1) \<Rightarrow> getClient_resume e s1 p)
          = (Settled (fst (getClient e s)), snd (getClient e s))"
    unfolding getClient_rest_settles using True
    by (auto simp: getClient_def Let_def split: option.splits prod.splits sum.splits)
  then show ?thesis
    using True getClient_rest_twice [of e s] by (simp add: getClient_begin_def)
next
  case False
  show ?thesis
  proof (cases "initialize e s")
    case (Pair r s0)
    show ?thesis
    proof (cases r)
      case (Inl err)
      then show ?thesis
        using False Pair
        by (simp add: getClient_begin_def getClient_resume_def getClient_def)
    next
      case (Inr u)
      have "(case getClient_rest e s0 of (p, s1) \<Rightarrow> getClient_resume e s1 p)
          = (Settled (fst (getClient e s)), snd (getClient e s))"
        unfolding getClient_rest_settles using False Pair Inr
        by (auto simp: getClient_def Let_def split: option.splits prod.splits sum.splits)
      then show ?thesis
        using False Pair Inr
        by (simp add: getClient_begin_def getClient_resume_def)
    qed
  qed
qed




section \<open>Properties of the calendar service\<close>








end
